theory Spec2Isabelle
  imports Main
begin

section \<open>Options and their votes (poll/option.py)\<close>

text \<open>
  Voter ids, option ids and poll ids are Python integers, hence \<open>int\<close>. A Python string
  is a list of code points; each \<open>char\<close> below stands for one code point (no encoding),
  so \<open>length\<close> is Python's \<open>len\<close>. An \<open>Option\<close> object keeps its id, its label, the set
  of voter ids and the optional author.
\<close>

record poll_option =
  option_id :: int
  label :: string
  votes :: "int set"
  author_id :: "int option"

text \<open>
  Modelled from the spec: the class \<open>Poll\<close> (module \<open>poll.poll\<close>) is not among the
  sources. Section 3 of the specification gives its attributes: an identity, a question,
  the ordered options, the optional expiry (a UTC timestamp, here an integer number of
  clock ticks), the allow-multiple-votes flag and the creator; section 4.2 adds the
  closed flag that \<open>close()\<close> sets; section 3 also gives the locator of the message that
  shows the poll (\<open>poll.message_id\<close> in \<open>paul.py\<close>).
\<close>

record poll =
  poll_id :: int
  question :: string
  options :: "poll_option list"
  expires :: "int option"
  allow_multiple_votes :: bool
  closed :: bool
  creator_id :: int
  message_id :: int

text \<open>
  An option and its poll refer to each other (\<open>option.poll\<close>, \<open>poll.options\<close>). The
  model keeps one poll object and addresses an option by its position in
  \<open>poll.options\<close>; the table \<open>votes\<close> of the database is the set of its rows
  \<open>(option_id, voter_id)\<close>. That the option belongs to its poll is the hypothesis
  \<open>i < length (options (the_poll w))\<close> of the theorems below.
\<close>

record world =
  the_poll :: poll
  vote_rows :: "(int \<times> int) set"

text \<open>
  The module \<open>sql\<close> is an external library. \<open>sql.delete(pool, "votes", option_id, voter_id)\<close>
  deletes the matching row if there is one, and \<open>sql.insert.one(..., on_conflict="DO NOTHING")\<close>
  inserts the row unless it exists (section 6 of the specification: \<open>deleteVote\<close>, and
  \<open>insertVote\<close> idempotent). Failures of the database connection are outside this model.
\<close>

definition sql_delete_vote :: "int \<Rightarrow> int \<Rightarrow> (int \<times> int) set \<Rightarrow> (int \<times> int) set" where
  "sql_delete_vote oid voter rows = rows - {(oid, voter)}"

definition sql_insert_vote :: "int \<Rightarrow> int \<Rightarrow> (int \<times> int) set \<Rightarrow> (int \<times> int) set" where
  "sql_insert_vote oid voter rows = insert (oid, voter) rows"

text \<open>The property \<open>vote_count\<close>: \<open>len(self.__votes)\<close>.\<close>

definition vote_count :: "poll_option \<Rightarrow> nat" where
  "vote_count opt = card (votes opt)"

text \<open>
  The two mutations of the private set \<open>self.__votes\<close>: \<open>discard(voter_id)\<close> and
  \<open>add(voter_id)\<close>.
\<close>

definition discard_voter :: "int \<Rightarrow> poll_option \<Rightarrow> poll_option" where
  "discard_voter voter opt = opt\<lparr>votes := votes opt - {voter}\<rparr>"

definition add_voter :: "int \<Rightarrow> poll_option \<Rightarrow> poll_option" where
  "add_voter voter opt = opt\<lparr>votes := insert voter (votes opt)\<rparr>"

text \<open>
  \<open>remove_vote\<close>: delete the row, then \<open>self.__votes.discard(voter_id)\<close>.
\<close>

definition remove_vote :: "nat \<Rightarrow> int \<Rightarrow> world \<Rightarrow> world" where
  "remove_vote i voter w =
     (let opt = options (the_poll w) ! i in
      w\<lparr>vote_rows := sql_delete_vote (option_id opt) voter (vote_rows w),
        the_poll := (the_poll w)\<lparr>options :=
           (options (the_poll w))[i := discard_voter voter opt]\<rparr>\<rparr>)"

text \<open>
  Modelled from the spec: \<open>Poll.remove_votes_from\<close> is not among the sources. Section 4.2:
  it "removes voterId's vote from every option of this poll", that is, it calls
  \<open>remove_vote\<close> on each option in turn. The docstring of \<open>add_vote\<close> says the same of
  its effect: "all other votes from this user are removed".
\<close>

definition remove_votes_from :: "int \<Rightarrow> world \<Rightarrow> world" where
  "remove_votes_from voter w =
     fold (\<lambda>i. remove_vote i voter) [0..<length (options (the_poll w))] w"

text \<open>
  \<open>add_vote\<close>: in a poll that does not allow multiple votes, first
  \<open>self.poll.remove_votes_from(voter_id)\<close>; then insert the row and
  \<open>self.__votes.add(voter_id)\<close>.
\<close>

definition add_vote :: "nat \<Rightarrow> int \<Rightarrow> world \<Rightarrow> world" where
  "add_vote i voter w =
     (let w1 = (if \<not> allow_multiple_votes (the_poll w) then remove_votes_from voter w else w);
          opt = options (the_poll w1) ! i in
      w1\<lparr>vote_rows := sql_insert_vote (option_id opt) voter (vote_rows w1),
         the_poll := (the_poll w1)\<lparr>options :=
           (options (the_poll w1))[i := add_voter voter opt]\<rparr>\<rparr>)"

text \<open>\<open>toggle_vote\<close>: \<open>if voter_id in self.votes: remove_vote else: add_vote\<close>.\<close>

definition toggle_vote :: "nat \<Rightarrow> int \<Rightarrow> world \<Rightarrow> world" where
  "toggle_vote i voter w =
     (if voter \<in> votes (options (the_poll w) ! i) then remove_vote i voter w
      else add_vote i voter w)"

text \<open>
  The number of options of a poll whose vote set holds a given voter. The single-vote
  invariant says that it is at most one for every voter.
\<close>

definition ballots :: "int \<Rightarrow> poll \<Rightarrow> nat" where
  "ballots voter p = length (filter (\<lambda>opt. voter \<in> votes opt) (options p))"

text \<open>A single-vote poll with two options, in which voter 7 has voted for the second.\<close>

definition demo_world :: world where
  "demo_world = \<lparr>the_poll = \<lparr>poll_id = 1, question = ''Lunch?'',
       options = [\<lparr>option_id = 1, label = ''Yes'', votes = {}, author_id = None\<rparr>,
                  \<lparr>option_id = 2, label = ''No'', votes = {7}, author_id = None\<rparr>],
       expires = None, allow_multiple_votes = False, closed = False, creator_id = 3, message_id = 5\<rparr>,
     vote_rows = {(2, 7)}\<rparr>"

section \<open>The accessors and aliasing (poll/option.py)\<close>

text \<open>
  \<open>self.__votes\<close> is a reference to a mutable set object, and \<open>votes\<close> returns
  \<open>self.__votes.copy()\<close>. Whether a caller can reach the internal set through the value
  it gets is a question of aliasing, so this section keeps the set objects in an explicit
  heap: an address is a position in the list of all set objects, and allocation appends.
\<close>

type_synonym addr = nat

type_synonym set_heap = "int set list"

text \<open>
  \<open>votes\<close>: \<open>return self.__votes.copy()\<close>. The copy is a new object; the accessor returns
  its address. The argument is the address held in \<open>self.__votes\<close>.
\<close>

definition votes_accessor :: "addr \<Rightarrow> set_heap \<Rightarrow> addr \<times> set_heap" where
  "votes_accessor self_votes h = (length h, h @ [h ! self_votes])"

text \<open>\<open>vote_count\<close>: \<open>return len(self.__votes)\<close>; the heap is returned as it was.\<close>

definition vote_count_accessor :: "addr \<Rightarrow> set_heap \<Rightarrow> nat \<times> set_heap" where
  "vote_count_accessor self_votes h = (card (h ! self_votes), h)"

text \<open>
  Any in-place mutation of the set object behind a reference (\<open>add\<close>, \<open>discard\<close>,
  \<open>clear\<close>, \<open>update\<close>, ...) replaces the content at that address by a function of the
  old content.
\<close>

definition mutate :: "addr \<Rightarrow> (int set \<Rightarrow> int set) \<Rightarrow> set_heap \<Rightarrow> set_heap" where
  "mutate r f h = h[r := f (h ! r)]"

section \<open>The converters (paul_bot/presentation/converters.py)\<close>

text \<open>
  Every exception the model can raise. The first four are the \<open>FriendlyError\<close>s of the
  presentation layer, named after their messages; \<open>ValueError\<close> is what \<open>str.split\<close>
  raises on an empty separator; \<open>TypeError\<close> is what \<open>None + timedelta\<close> raises;
  \<open>Forbidden\<close> is the transport's refusal to edit a message. \<open>PollCreationError\<close> and
  \<open>CapacityError\<close> are the creation error and the capacity error of sections 4.2 and 7
  of the specification.
\<close>

datatype error =
    TooManyOptions "string list"
  | OptionTooLong string
  | StringLengthOutOfBounds nat nat string
  | CannotAddMoreOptions
  | ValueError
  | TypeError
  | Forbidden
  | PollCreationError
  | CapacityError

text \<open>
  Modelled from the spec: the constant \<open>Poll.MAX_OPTIONS\<close> is not among the sources. The
  specification calls it a fixed maximum of the option count; its value is the literal 23
  that \<open>parse_options\<close> compares with ("Too many options. Maximum is 23.").
\<close>

definition MAX_OPTIONS :: nat where
  "MAX_OPTIONS = 23"

text \<open>
  \<open>str.isspace\<close> on the code points below 256: the controls 9 to 13 and 28 to 31, the
  space, NEL (133) and the no-break space (160). \<open>str.strip()\<close> drops such characters
  at both ends.
\<close>

definition is_space :: "char \<Rightarrow> bool" where
  "is_space c = (let n = (of_char c :: nat) in
     (9 \<le> n \<and> n \<le> 13) \<or> (28 \<le> n \<and> n \<le> 32) \<or> n = 133 \<or> n = 160)"

definition strip :: "string \<Rightarrow> string" where
  "strip s = rev (dropWhile is_space (rev (dropWhile is_space s)))"

text \<open>
  \<open>str.split(sep)\<close> for a separator string: scan from the left, cut at every occurrence
  of \<open>sep\<close> and continue after it. \<open>skip\<close> counts the characters of a matched
  separator that are still to be passed over, \<open>piece\<close> is the current piece, reversed.
\<close>

fun split_from :: "string \<Rightarrow> nat \<Rightarrow> string \<Rightarrow> string \<Rightarrow> string list" where
  "split_from sep skip piece [] = [rev piece]"
| "split_from sep skip piece (c # cs) =
     (if 0 < skip then split_from sep (skip - 1) piece cs
      else if take (length sep) (c # cs) = sep
        then rev piece # split_from sep (length sep - 1) [] cs
      else split_from sep 0 (c # piece) cs)"

definition split :: "string \<Rightarrow> string \<Rightarrow> error + string list" where
  "split sep s = (if sep = [] then Inl ValueError else Inr (split_from sep 0 [] s))"

text \<open>
  \<open>parse_options(sep)\<close> returns a converter. Its first line is
  \<open>result = [option.strip() for option in options.split(sep) if option]\<close>: the test
  \<open>if option\<close> is on the piece before stripping.
\<close>

definition option_labels :: "string \<Rightarrow> string \<Rightarrow> error + string list" where
  "option_labels sep raw =
     (case split sep raw of
        Inl e \<Rightarrow> Inl e
      | Inr pieces \<Rightarrow> Inr (map strip (filter (\<lambda>piece. piece \<noteq> []) pieces)))"

definition parse_options :: "string \<Rightarrow> string \<Rightarrow> error + string list" where
  "parse_options sep raw =
     (case option_labels sep raw of
        Inl e \<Rightarrow> Inl e
      | Inr result \<Rightarrow>
          if length result > 23 then Inl (TooManyOptions result)
          else (case find (\<lambda>opt. length opt > 253) result of
                  Some opt \<Rightarrow> Inl (OptionTooLong opt)
                | None \<Rightarrow> if result = [] then Inr [''Yes'', ''No''] else Inr result))"

text \<open>\<open>length_bound_str(max, min)\<close> returns a converter as well.\<close>

definition length_bound_str :: "nat \<Rightarrow> nat \<Rightarrow> string \<Rightarrow> error + string" where
  "length_bound_str max_len min_len s =
     (if length s > max_len \<or> length s < min_len
      then Inl (StringLengthOutOfBounds min_len max_len s) else Inr s)"


section \<open>The bot (paul_bot/presentation/paul.py)\<close>

text \<open>
  \<open>PollCommandParams\<close> carries the arguments of the slash command \<open>/poll\<close>, as the
  handler builds it. The expiry is a timestamp and the repeat interval a duration, both
  in clock ticks. The three access lists are carried along unchanged and play no part
  below; they are left out.
\<close>

record params =
  param_question :: string
  param_options :: "string list"
  param_expires :: "int option"
  param_allow_multiple_votes :: bool
  repeat_time :: "int option"
  repeat_count :: "int option"

text \<open>
  What \<open>message.edit(embed=...)\<close> is called with: \<open>PollEmbedBase(title)\<close> or
  \<open>PollEmbedBase(title, description)\<close>, the embed of an open poll, or the embed of a closed
  poll. \<open>CreationFailedEmbed question e\<close> stands for the \<open>PollEmbedBase\<close> titled
  "Something went wrong..." whose description quotes the question and the reason \<open>e\<close>.
\<close>

datatype embed =
    PollEmbedBase string "string option"
  | CreationFailedEmbed string error
  | PollEmbed poll
  | PollClosedEmbed poll

text \<open>A row of the table \<open>polls\<close> (section 6 of the specification: \<open>insertPoll\<close>, \<open>updatePollClosed\<close>).\<close>

record poll_row =
  row_id :: int
  row_question :: string
  row_expires :: "int option"
  row_allow_multiple_votes :: bool
  row_closed :: bool
  row_creator :: int
  row_message :: int

text \<open>
  The state that the bot's methods read and write:
  \<^item> the counters and the activity name of \<open>Paul\<close>; the activity name is the text
    "/poll. a active, t total. (g servers)", kept as the triple \<open>(a, t, g)\<close>, and \<open>None\<close> is
    the initial empty string; \<open>guilds\<close> is \<open>len(self.guilds)\<close>;
  \<^item> the \<open>Poll\<close> objects in memory, a poll being addressed by its position in \<open>polls\<close>;
  \<^item> the tables of the database;
  \<^item> the calls made to the transport: \<open>change_presence\<close> and \<open>message.edit\<close> (with the id of
    the message), in order; \<open>edit_forbidden\<close> tells whether \<open>message.edit\<close> raises
    \<open>Forbidden\<close>;
  \<^item> the polls for which \<open>asyncio.create_task(self.__poll_close_task(poll))\<close> was called;
  \<^item> the wall clock.
\<close>

record system =
  total_poll_count :: int
  closed_poll_count :: int
  activity_name :: "(int \<times> int \<times> nat) option"
  guilds :: nat
  polls :: "poll list"
  poll_table :: "poll_row list"
  option_table :: "(int \<times> string \<times> int \<times> int option) list"
  vote_table :: "(int \<times> int) set"
  presence_calls :: "(int \<times> int \<times> nat) list"
  edit_calls :: "(int \<times> embed) list"
  edit_forbidden :: bool
  close_tasks :: "nat list"
  now :: int

text \<open>
  Modelled from the spec: the property \<open>Poll.is_expired\<close> is not among the sources.
  Section 4.2: "true once the wall-clock has passed \<open>expires\<close> OR \<open>close()\<close> has been
  called"; a poll with no expiry is never time-expired.
\<close>

definition is_expired :: "poll \<Rightarrow> int \<Rightarrow> bool" where
  "is_expired p t = (closed p \<or> (case expires p of None \<Rightarrow> False | Some e \<Rightarrow> e < t))"

text \<open>
  Modelled from the spec: \<open>Poll.close\<close> is not among the sources. Section 4.2: it "marks
  the poll closed (persists closed/expiry state so recovery after restart reflects it)";
  closing a closed poll is a no-op.
\<close>

definition poll_close :: "nat \<Rightarrow> system \<Rightarrow> system" where
  "poll_close pi s =
     (let p = polls s ! pi in
      s\<lparr>polls := (polls s)[pi := p\<lparr>closed := True\<rparr>],
        poll_table := map (\<lambda>r. if row_id r = poll_id p then r\<lparr>row_closed := True\<rparr> else r)
                        (poll_table s)\<rparr>)"

text \<open>
  Modelled from the spec: \<open>Poll.new_option\<close> is not among the sources. Section 4.2: it
  "fails with a capacity error if the poll already has MAX_OPTIONS options or is closed;
  otherwise persists and appends one Option". Being closed is the negation of \<open>isOpen\<close>,
  that is \<open>is_expired\<close>. The new row gets the next id of the table \<open>options\<close>.
\<close>

definition new_option :: "nat \<Rightarrow> string \<Rightarrow> int \<Rightarrow> system \<Rightarrow> error option \<times> system" where
  "new_option pi lbl author s =
     (let p = polls s ! pi in
      if length (options p) = MAX_OPTIONS \<or> is_expired p (now s) then (Some CapacityError, s)
      else
        let oid = int (length (option_table s)) + 1;
            opt = \<lparr>option_id = oid, label = lbl, votes = {}, author_id = Some author\<rparr>
        in (None, s\<lparr>option_table := option_table s @ [(oid, lbl, poll_id p, Some author)],
                     polls := (polls s)[pi := p\<lparr>options := options p @ [opt]\<rparr>]\<rparr>))"

text \<open>
  Modelled from the spec: \<open>Poll.create_poll\<close> is not among the sources. Section 4.2: it
  "validates option count \<le> MAX_OPTIONS before persisting; persists the poll row, then the
  option rows, then links them", and fails with a creation error if the count exceeds the
  cap. The error is taken to be a \<open>RuntimeError\<close>, which is what \<open>new_poll\<close> catches and
  reports. The result is the position of the new \<open>Poll\<close> object.
\<close>

definition create_poll :: "params \<Rightarrow> int \<Rightarrow> int \<Rightarrow> system \<Rightarrow> (error + nat) \<times> system" where
  "create_poll ps author msg s =
     (if length (param_options ps) > MAX_OPTIONS then (Inl PollCreationError, s)
      else
        let pid = int (length (poll_table s)) + 1;
            row = \<lparr>row_id = pid, row_question = param_question ps,
                   row_expires = param_expires ps,
                   row_allow_multiple_votes = param_allow_multiple_votes ps,
                   row_closed = False, row_creator = author, row_message = msg\<rparr>;
            first_oid = int (length (option_table s)) + 1;
            oids = map (\<lambda>k. first_oid + int k) [0..<length (param_options ps)];
            rows = map2 (\<lambda>oid lbl. (oid, lbl, pid, None)) oids (param_options ps);
            opts = map2 (\<lambda>oid lbl. \<lparr>option_id = oid, label = lbl, votes = {}, author_id = None\<rparr>)
                     oids (param_options ps);
            p = \<lparr>poll_id = pid, question = param_question ps, options = opts,
                 expires = param_expires ps,
                 allow_multiple_votes = param_allow_multiple_votes ps,
                 closed = False, creator_id = author, message_id = msg\<rparr>
        in (Inr (length (polls s)),
            s\<lparr>poll_table := poll_table s @ [row],
              option_table := option_table s @ rows,
              polls := polls s @ [p]\<rparr>))"

text \<open>
  \<open>__update_poll_message(poll, message)\<close>: the message is the one given, or else the one
  the poll's locator names; it is edited to show the embed of a closed or of an open poll.
  \<open>Forbidden\<close> is caught and dropped, so the outcome of the call does not matter here.
\<close>

definition update_poll_message :: "nat \<Rightarrow> int option \<Rightarrow> system \<Rightarrow> system" where
  "update_poll_message pi message s =
     (let p = polls s ! pi;
          m = (case message of Some m \<Rightarrow> m | None \<Rightarrow> message_id p)
      in s\<lparr>edit_calls := edit_calls s @
             [(m, if is_expired p (now s) then PollClosedEmbed p else PollEmbed p)]\<rparr>)"

text \<open>\<open>__set_presence\<close>: change the presence only when the activity name changes.\<close>

definition set_presence :: "system \<Rightarrow> system" where
  "set_presence s =
     (let active_polls = total_poll_count s - closed_poll_count s;
          name = (active_polls, total_poll_count s, guilds s)
      in if Some name \<noteq> activity_name s
         then s\<lparr>presence_calls := presence_calls s @ [name], activity_name := Some name\<rparr>
         else s)"

text \<open>\<open>close_poll_now(poll, message)\<close>.\<close>

definition close_poll_now :: "nat \<Rightarrow> int option \<Rightarrow> system \<Rightarrow> system" where
  "close_poll_now pi message s =
     (let s1 = poll_close pi s;
          s2 = update_poll_message pi message s1;
          s3 = s2\<lparr>closed_poll_count := closed_poll_count s2 + 1\<rparr>
      in set_presence s3)"

text \<open>
  \<open>__poll_close_task(poll, message)\<close>: return at once when the poll has no expiry;
  otherwise sleep for \<open>poll.expires - now\<close> and then call \<open>close_poll_now\<close>. The sleep is
  where other tasks run: \<open>meanwhile\<close> is what they do to the state while this task sleeps.
  The expiry is read before the sleep; the clock is at least at the expiry when the task
  wakes up.
\<close>

definition poll_close_task :: "nat \<Rightarrow> int option \<Rightarrow> (system \<Rightarrow> system) \<Rightarrow> system \<Rightarrow> system" where
  "poll_close_task pi message meanwhile s =
     (case expires (polls s ! pi) of
        None \<Rightarrow> s
      | Some e \<Rightarrow>
          let s1 = meanwhile s;
              s2 = s1\<lparr>now := max (now s1) e\<rparr>
          in close_poll_now pi message s2)"

text \<open>
  \<open>new_poll(params, author_id, message)\<close>. In the \<open>except RuntimeError\<close> branch the call of
  \<open>message.edit\<close> is not guarded, so \<open>Forbidden\<close> leaves the method.
\<close>

definition new_poll :: "params \<Rightarrow> int \<Rightarrow> int \<Rightarrow> system \<Rightarrow> error option \<times> system" where
  "new_poll ps author msg s =
     (case create_poll ps author msg s of
        (Inr pi, s1) \<Rightarrow>
          let s2 = s1\<lparr>total_poll_count := total_poll_count s1 + 1\<rparr>;
              s3 = update_poll_message pi (Some msg) s2;
              s4 = set_presence s3
          in (None, s4\<lparr>close_tasks := close_tasks s4 @ [pi]\<rparr>)
      | (Inl e, s1) \<Rightarrow>
          let s2 = s1\<lparr>edit_calls := edit_calls s1 @ [(msg, CreationFailedEmbed (param_question ps) e)]\<rparr>
          in (if edit_forbidden s2 then Some Forbidden else None, s2))"

text \<open>
  The loop of \<open>repeat_poll\<close>. With a repeat interval and no repeat count it runs for ever,
  so the model takes fuel, one unit for each test of the loop condition, and returns
  \<open>None\<close> when the fuel is used up. \<open>k\<close> is the local counter \<open>repeat_count\<close>. The
  statement \<open>params.expires += params.repeat_time\<close> changes the parameter object, which
  is therefore part of the result; on \<open>expires = None\<close> it raises \<open>TypeError\<close>. The
  sleep moves the clock on by the interval (tasks that run during the sleep do not
  touch the parameters and are not interleaved here).
\<close>

fun repeat_loop :: "nat \<Rightarrow> params \<Rightarrow> int \<Rightarrow> int \<Rightarrow> int \<Rightarrow> system
    \<Rightarrow> (error option \<times> params \<times> system) option" where
  "repeat_loop 0 ps k author msg s = None"
| "repeat_loop (Suc fuel) ps k author msg s =
     (if (case repeat_count ps of None \<Rightarrow> True | Some n \<Rightarrow> k < n) then
        (case new_poll ps author msg s of
           (Some e, s1) \<Rightarrow> Some (Some e, ps, s1)
         | (None, s1) \<Rightarrow>
             (case repeat_time ps of
                None \<Rightarrow> Some (None, ps, s1)
              | Some t \<Rightarrow>
                  (case param_expires ps of
                     None \<Rightarrow> Some (Some TypeError, ps, s1)
                   | Some e \<Rightarrow>
                       repeat_loop fuel (ps\<lparr>param_expires := Some (e + t)\<rparr>) (k + 1) author msg
                         (s1\<lparr>now := now s1 + max 0 t\<rparr>))))
      else Some (None, ps, s))"

text \<open>
  \<open>repeat_poll(params, author_id, message)\<close>: a repeat count without a repeat time is
  reported by editing the message, and the method returns.
\<close>

definition repeat_poll :: "nat \<Rightarrow> params \<Rightarrow> int \<Rightarrow> int \<Rightarrow> system
    \<Rightarrow> (error option \<times> params \<times> system) option" where
  "repeat_poll fuel ps author msg s =
     (if repeat_time ps = None \<and> repeat_count ps \<noteq> None then
        let s1 = s\<lparr>edit_calls := edit_calls s @
                 [(msg, PollEmbedBase
                     ''You need to define a repeat time if you have defined a repeat count.''
                     None)]\<rparr>
        in Some (if edit_forbidden s1 then Some Forbidden else None, ps, s1)
      else repeat_loop fuel ps 0 author msg s)"

text \<open>
  The handler of \<open>/poll\<close>. The framework runs the converters of the parameters first
  (\<open>length_bound_str(254)\<close> on the question, \<open>parse_options(sep="|")\<close> on the options when
  they are given, else the default \<open>("Yes", "No")\<close>) and calls the handler only when none
  of them raised. The arguments that the other converters produce (expiry, repeat
  interval) are taken as they come out of them. The handler sends the "Loading poll..."
  message, which is recorded with the edits of that message, and starts \<open>repeat_poll\<close>
  as a task.
\<close>

definition poll_command :: "nat \<Rightarrow> string \<Rightarrow> string option \<Rightarrow> int option \<Rightarrow> bool
    \<Rightarrow> int option \<Rightarrow> int option \<Rightarrow> int \<Rightarrow> int \<Rightarrow> system
    \<Rightarrow> (error option \<times> system) option" where
  "poll_command fuel question_arg options_arg expires_arg multi repeat_time_arg repeat_count_arg
       author msg s =
     (case length_bound_str 254 0 question_arg of
        Inl e \<Rightarrow> Some (Some e, s)
      | Inr q \<Rightarrow>
          (case (case options_arg of None \<Rightarrow> Inr [''Yes'', ''No'']
                                   | Some raw \<Rightarrow> parse_options ''|'' raw) of
             Inl e \<Rightarrow> Some (Some e, s)
           | Inr opts \<Rightarrow>
               let ps = \<lparr>param_question = q, param_options = opts, param_expires = expires_arg,
                          param_allow_multiple_votes = multi, repeat_time = repeat_time_arg,
                          repeat_count = repeat_count_arg\<rparr>;
                   s1 = s\<lparr>edit_calls := edit_calls s @
                          [(msg, PollEmbedBase q (Some ''<a:loading:904120454975991828> Loading poll...''))]\<rparr>
               in map_option (\<lambda>(e, ps', s'). (e, s')) (repeat_poll fuel ps author msg s1)))"

text \<open>
  \<open>add_poll_option(poll, label, author_id, inter)\<close>; \<open>inter_message\<close> is \<open>inter.message\<close>.
\<close>

definition add_poll_option :: "nat \<Rightarrow> string \<Rightarrow> int \<Rightarrow> int \<Rightarrow> system \<Rightarrow> error option \<times> system" where
  "add_poll_option pi lbl author inter_message s =
     (if length (options (polls s ! pi)) = MAX_OPTIONS then (Some CannotAddMoreOptions, s)
      else (case new_option pi lbl author s of
              (Some e, s1) \<Rightarrow> (Some e, s1)
            | (None, s1) \<Rightarrow> (None, update_poll_message pi (Some inter_message) s1)))"

text \<open>
  Modelled from the spec: \<open>paul.py\<close> imports \<open>Option\<close> from the package
  \<open>paul_bot.application\<close>, which is not among the sources, and calls its \<open>toggle_vote\<close>
  without \<open>await\<close>, as it calls \<open>poll.close()\<close>: a plain method. Section 4.1:
  "\<open>toggleVote(voterId)\<close>: if \<open>voterId\<close> currently in this option's vote set, performs
  \<open>removeVote\<close>; else performs \<open>addVote\<close>", which is what \<open>toggle_vote\<close> of
  \<open>poll/option.py\<close> does. The option is the one at position \<open>oi\<close> of the poll at \<open>pi\<close>.
\<close>

definition option_toggle_vote :: "nat \<Rightarrow> nat \<Rightarrow> int \<Rightarrow> system \<Rightarrow> system" where
  "option_toggle_vote pi oi voter s =
     (let w = toggle_vote oi voter \<lparr>the_poll = polls s ! pi, vote_rows = vote_table s\<rparr>
      in s\<lparr>polls := (polls s)[pi := the_poll w], vote_table := vote_rows w\<rparr>)"

text \<open>\<open>Paul.toggle_vote(option, voter_id)\<close>: toggle, then update the message of \<open>option.poll\<close>.\<close>

definition paul_toggle_vote :: "nat \<Rightarrow> nat \<Rightarrow> int \<Rightarrow> system \<Rightarrow> system" where
  "paul_toggle_vote pi oi voter s =
     update_poll_message pi None (option_toggle_vote pi oi voter s)"

text \<open>
  A bot with one open single-vote poll (the poll of \<open>demo_world\<close>, now with an expiry),
  and the parameters of a poll that repeats three times, one tick apart.
\<close>

definition demo_system :: system where
  "demo_system = \<lparr>total_poll_count = 1, closed_poll_count = 0, activity_name = Some (1, 1, 1),
     guilds = 1, polls = [(the_poll demo_world)\<lparr>expires := Some 100\<rparr>],
     poll_table = [\<lparr>row_id = 1, row_question = ''Lunch?'', row_expires = Some 100,
                    row_allow_multiple_votes = False, row_closed = False, row_creator = 3,
                    row_message = 5\<rparr>],
     option_table = [(1, ''Yes'', 1, None), (2, ''No'', 1, None)],
     vote_table = {(2, 7)}, presence_calls = [], edit_calls = [], edit_forbidden = False,
     close_tasks = [0], now = 10\<rparr>"

definition demo_params :: "int option \<Rightarrow> int option \<Rightarrow> int option \<Rightarrow> params" where
  "demo_params e t n = \<lparr>param_question = ''Lunch?'', param_options = [''Yes'', ''No''],
     param_expires = e, param_allow_multiple_votes = False, repeat_time = t, repeat_count = n\<rparr>"

text \<open>Twenty-four labels, one more than the maximum.\<close>

definition many_labels :: string where
  "many_labels = ''a|b|c|d|e|f|g|h|i|j|k|l|m|n|o|p|q|r|s|t|u|v|w|x''"


section \<open>Facts about the vote operations\<close>

lemma the_poll_remove_vote:
  "the_poll (remove_vote i voter w) =
     (the_poll w)\<lparr>options := (options (the_poll w))[i := discard_voter voter (options (the_poll w) ! i)]\<rparr>"
  by (simp add: remove_vote_def Let_def)

lemma remove_vote_options:
  "options (the_poll (remove_vote i voter w)) =
     (options (the_poll w))[i := discard_voter voter (options (the_poll w) ! i)]"
  by (simp add: the_poll_remove_vote)

lemma the_poll_fold_remove_vote:
  "k \<le> length (options (the_poll w)) \<Longrightarrow>
   the_poll (fold (\<lambda>i. remove_vote i voter) [0..<k] w) =
     (the_poll w)\<lparr>options := map (discard_voter voter) (take k (options (the_poll w)))
                                  @ drop k (options (the_poll w))\<rparr>"
proof (induction k)
  case 0
  then show ?case by simp
next
  case (Suc k)
  let ?w = "fold (\<lambda>i. remove_vote i voter) [0..<k] w"
  let ?xs = "options (the_poll w)"
  let ?d = "discard_voter voter"
  have k: "k < length ?xs" using Suc.prems by simp
  have ih: "the_poll ?w = (the_poll w)\<lparr>options := map ?d (take k ?xs) @ drop k ?xs\<rparr>"
    using Suc by simp
  have nth: "options (the_poll ?w) ! k = ?xs ! k"
    using k by (simp add: ih nth_append)
  have upd: "(map ?d (take k ?xs) @ drop k ?xs)[k := ?d (?xs ! k)]
               = map ?d (take (Suc k) ?xs) @ drop (Suc k) ?xs"
  proof -
    have "(map ?d (take k ?xs) @ drop k ?xs)[k := ?d (?xs ! k)]
            = map ?d (take k ?xs) @ (drop k ?xs)[0 := ?d (?xs ! k)]"
      using k by (simp add: list_update_append)
    also have "(drop k ?xs)[0 := ?d (?xs ! k)] = ?d (?xs ! k) # drop (Suc k) ?xs"
      using k by (simp add: Cons_nth_drop_Suc [symmetric])
    also have "map ?d (take k ?xs) @ ?d (?xs ! k) # drop (Suc k) ?xs
                 = map ?d (take (Suc k) ?xs) @ drop (Suc k) ?xs"
      using k by (simp add: take_Suc_conv_app_nth)
    finally show ?thesis .
  qed
  have "the_poll (fold (\<lambda>i. remove_vote i voter) [0..<Suc k] w) = the_poll (remove_vote k voter ?w)"
    by simp
  also have "\<dots> = (the_poll ?w)\<lparr>options := (options (the_poll ?w))[k := ?d (?xs ! k)]\<rparr>"
    by (simp only: the_poll_remove_vote nth)
  also have "\<dots> = (the_poll w)\<lparr>options := map ?d (take (Suc k) ?xs) @ drop (Suc k) ?xs\<rparr>"
    by (simp add: ih upd)
  finally show ?case .
qed

lemma the_poll_remove_votes_from:
  "the_poll (remove_votes_from voter w) =
     (the_poll w)\<lparr>options := map (discard_voter voter) (options (the_poll w))\<rparr>"
  by (simp add: remove_votes_from_def the_poll_fold_remove_vote)

lemma the_poll_add_vote:
  "the_poll (add_vote i voter w) =
     (let xs = (if allow_multiple_votes (the_poll w) then options (the_poll w)
                else map (discard_voter voter) (options (the_poll w)))
      in (the_poll w)\<lparr>options := xs[i := add_voter voter (xs ! i)]\<rparr>)"
  by (simp add: add_vote_def Let_def the_poll_remove_votes_from)

lemma add_vote_options:
  "options (the_poll (add_vote i voter w)) =
     (let xs = (if allow_multiple_votes (the_poll w) then options (the_poll w)
                else map (discard_voter voter) (options (the_poll w)))
      in xs[i := add_voter voter (xs ! i)])"
  by (simp add: the_poll_add_vote Let_def)

lemma filter_length_mono:
  "list_all2 (\<lambda>a b. P b \<longrightarrow> P a) xs ys \<Longrightarrow> length (filter P ys) \<le> length (filter P xs)"
  by (induction rule: list_all2_induct) auto

lemma filter_length_cong:
  "list_all2 (\<lambda>a b. P b = P a) xs ys \<Longrightarrow> length (filter P ys) = length (filter P xs)"
  by (induction rule: list_all2_induct) auto

lemma filter_update_single:
  assumes "i < length zs" and "\<forall>z \<in> set zs. \<not> P z" and "P y"
  shows "length (filter P (zs[i := y])) = 1"
proof -
  have "zs[i := y] = take i zs @ y # drop (Suc i) zs"
    using assms(1) by (rule upd_conv_take_nth_drop)
  moreover have "filter P (take i zs) = []" "filter P (drop (Suc i) zs) = []"
    using assms(2) by (auto simp: filter_empty_conv dest: in_set_takeD in_set_dropD)
  ultimately show ?thesis using assms(3) by simp
qed

lemma ballots_remove_vote:
  assumes "i < length (options (the_poll w))"
  shows "ballots v (the_poll (remove_vote i voter w)) \<le> ballots v (the_poll w)"
proof -
  let ?xs = "options (the_poll w)"
  have "list_all2 (\<lambda>a b. v \<in> votes b \<longrightarrow> v \<in> votes a) ?xs (options (the_poll (remove_vote i voter w)))"
    using assms
    by (auto simp add: remove_vote_options list_all2_conv_all_nth nth_list_update
          discard_voter_def split: if_splits)
  then show ?thesis unfolding ballots_def by (rule filter_length_mono)
qed

lemma ballots_add_vote_other:
  assumes "i < length (options (the_poll w))" and "v \<noteq> voter"
  shows "ballots v (the_poll (add_vote i voter w)) = ballots v (the_poll w)"
proof -
  let ?xs = "options (the_poll w)"
  have "list_all2 (\<lambda>a b. (v \<in> votes b) = (v \<in> votes a)) ?xs (options (the_poll (add_vote i voter w)))"
    using assms
    by (auto simp add: add_vote_options Let_def list_all2_conv_all_nth nth_list_update
          discard_voter_def add_voter_def split: if_splits)
  then show ?thesis unfolding ballots_def by (rule filter_length_cong)
qed

lemma ballots_add_vote_self:
  assumes "i < length (options (the_poll w))" and "\<not> allow_multiple_votes (the_poll w)"
  shows "ballots voter (the_poll (add_vote i voter w)) = 1"
proof -
  let ?zs = "map (discard_voter voter) (options (the_poll w))"
  have "\<forall>z \<in> set ?zs. \<not> voter \<in> votes z" by (simp add: discard_voter_def)
  moreover have "i < length ?zs" using assms(1) by simp
  ultimately have "length (filter (\<lambda>opt. voter \<in> votes opt)
      (?zs[i := add_voter voter (?zs ! i)])) = 1"
    by (intro filter_update_single) (simp_all add: add_voter_def)
  then show ?thesis using assms(2) by (simp add: ballots_def add_vote_options Let_def)
qed

lemma map_discard_voter_id:
  "\<forall>opt \<in> set xs. voter \<notin> votes opt \<Longrightarrow> map (discard_voter voter) xs = xs"
  by (induction xs) (simp_all add: discard_voter_def)

lemma no_vote_anywhere:
  assumes "i < length xs" and "voter \<notin> votes (xs ! i)"
    and "\<forall>j<length xs. j \<noteq> i \<longrightarrow> voter \<notin> votes (xs ! j)"
  shows "\<forall>opt \<in> set xs. voter \<notin> votes opt"
  using assms by (metis in_set_conv_nth)

text \<open>
  Claim C1. In a poll that does not allow multiple votes, in which every voter id is in
  the vote set of at most one option, every vote mutation on an option of the poll keeps
  it so: after \<open>add_vote\<close> the voter is in the vote set of the target option and of no
  other (\<open>remove_votes_from\<close> ran first), and \<open>remove_vote\<close> and \<open>toggle_vote\<close>
  preserve the invariant as well.
\<close>
theorem add_vote_keeps_single_vote:
  assumes "\<not> allow_multiple_votes (the_poll w)"
    and "i < length (options (the_poll w))"
    and "\<forall>v. ballots v (the_poll w) \<le> 1"
  shows "(\<forall>v. ballots v (the_poll (add_vote i voter w)) \<le> 1)
       \<and> ballots voter (the_poll (add_vote i voter w)) = 1
       \<and> voter \<in> votes (options (the_poll (add_vote i voter w)) ! i)
       \<and> (\<forall>v. ballots v (the_poll (remove_vote i voter w)) \<le> 1)
       \<and> (\<forall>v. ballots v (the_poll (toggle_vote i voter w)) \<le> 1)"
proof -
  have self: "ballots voter (the_poll (add_vote i voter w)) = 1"
    using assms(1,2) by (simp add: ballots_add_vote_self)
  have add: "ballots v (the_poll (add_vote i voter w)) \<le> 1" for v
  proof (cases "v = voter")
    case True
    then show ?thesis using self by simp
  next
    case False
    then show ?thesis using assms(2,3) by (simp add: ballots_add_vote_other)
  qed
  have rem: "ballots v (the_poll (remove_vote i voter w)) \<le> 1" for v
    using ballots_remove_vote [OF assms(2), of v voter] assms(3) le_trans by blast
  have mem: "voter \<in> votes (options (the_poll (add_vote i voter w)) ! i)"
    using assms(2) by (simp add: add_vote_options Let_def add_voter_def)
  have tog: "ballots v (the_poll (toggle_vote i voter w)) \<le> 1" for v
    using add rem by (simp add: toggle_vote_def)
  show ?thesis using self add rem mem tog by blast
qed

theorem add_vote_keeps_single_vote_witness:
  "ballots 7 (the_poll (add_vote 0 7 demo_world)) = 1
   \<and> 7 \<in> votes (options (the_poll (add_vote 0 7 demo_world)) ! 0)
   \<and> (\<forall>v. ballots v (the_poll (add_vote 0 7 demo_world)) \<le> 1)"
proof -
  have "\<not> allow_multiple_votes (the_poll demo_world)"
    and "0 < length (options (the_poll demo_world))"
    and "\<forall>v. ballots v (the_poll demo_world) \<le> 1"
    by (simp_all add: demo_world_def ballots_def)
  from add_vote_keeps_single_vote [OF this] show ?thesis by blast
qed

text \<open>
  Claim C9. \<open>remove_vote\<close> for a voter who is not in the option's vote set changes nothing
  in memory: the poll and all its vote sets are as before, and so is \<open>vote_count\<close>; when
  the table has no such row either, the whole state is unchanged; and calling it again
  changes nothing more. The model has no error branch: \<open>set.discard\<close> and a
  \<open>DELETE\<close> that matches no row do not raise.
\<close>
theorem remove_vote_absent_noop:
  assumes "i < length (options (the_poll w))"
    and "voter \<notin> votes (options (the_poll w) ! i)"
  shows "the_poll (remove_vote i voter w) = the_poll w
       \<and> vote_count (options (the_poll (remove_vote i voter w)) ! i)
           = vote_count (options (the_poll w) ! i)
       \<and> ((option_id (options (the_poll w) ! i), voter) \<notin> vote_rows w
            \<longrightarrow> remove_vote i voter w = w)
       \<and> remove_vote i voter (remove_vote i voter w) = remove_vote i voter w"
proof -
  let ?xs = "options (the_poll w)"
  have same: "discard_voter voter (?xs ! i) = ?xs ! i"
    using assms(2) by (simp add: discard_voter_def)
  have poll: "the_poll (remove_vote i voter w) = the_poll w"
    by (simp add: the_poll_remove_vote same)
  have rows: "remove_vote i voter w = w"
    if "(option_id (?xs ! i), voter) \<notin> vote_rows w"
    using that by (simp add: remove_vote_def Let_def same sql_delete_vote_def)
  have twice: "remove_vote i voter (remove_vote i voter w) = remove_vote i voter w"
    by (simp add: remove_vote_def Let_def same sql_delete_vote_def)
  show ?thesis using poll rows twice by simp
qed

theorem remove_vote_absent_noop_witness:
  "the_poll (remove_vote 0 7 demo_world) = the_poll demo_world
   \<and> vote_count (options (the_poll (remove_vote 0 7 demo_world)) ! 0) = 0
   \<and> remove_vote 0 7 demo_world = demo_world"
proof -
  have "0 < length (options (the_poll demo_world))"
    and "7 \<notin> votes (options (the_poll demo_world) ! 0)"
    by (simp_all add: demo_world_def)
  from remove_vote_absent_noop [OF this] show ?thesis
    by (simp add: demo_world_def vote_count_def)
qed

text \<open>
  Claim C2, as amended. Two calls of \<open>toggle_vote\<close> in succession for the same option and
  voter return that option's vote set to what it was. They return the whole poll, the
  vote sets of the sibling options included, to what it was when the poll allows multiple
  votes or the voter had no vote on a sibling option. (In a single-vote poll the first
  call removes the voter's vote on a sibling and the second does not bring it back: see
  the counterexample.)
\<close>
theorem toggle_vote_twice:
  assumes "i < length (options (the_poll w))"
  shows "votes (options (the_poll (toggle_vote i voter (toggle_vote i voter w))) ! i)
           = votes (options (the_poll w) ! i)
       \<and> (allow_multiple_votes (the_poll w)
            \<or> (\<forall>j<length (options (the_poll w)). j \<noteq> i \<longrightarrow> voter \<notin> votes (options (the_poll w) ! j))
          \<longrightarrow> the_poll (toggle_vote i voter (toggle_vote i voter w)) = the_poll w)"
proof (cases "voter \<in> votes (options (the_poll w) ! i)")
  case voted: True
  let ?xs = "options (the_poll w)"
  let ?w1 = "remove_vote i voter w"
  let ?xs1 = "?xs[i := discard_voter voter (?xs ! i)]"
  have t1: "toggle_vote i voter w = ?w1" using voted by (simp add: toggle_vote_def)
  have p1: "the_poll ?w1 = (the_poll w)\<lparr>options := ?xs1\<rparr>"
    by (rule the_poll_remove_vote)
  have "voter \<notin> votes (options (the_poll ?w1) ! i)"
    using assms by (simp add: p1 discard_voter_def)
  then have t2: "toggle_vote i voter ?w1 = add_vote i voter ?w1" by (simp add: toggle_vote_def)
  have own: "votes (options (the_poll (add_vote i voter ?w1)) ! i) = votes (?xs ! i)"
    using assms voted
    by (auto simp add: add_vote_options Let_def p1 discard_voter_def add_voter_def)
  have undo: "add_voter voter (discard_voter voter (?xs ! i)) = ?xs ! i"
    using voted by (simp add: discard_voter_def add_voter_def insert_absorb)
  have whole: "the_poll (add_vote i voter ?w1) = the_poll w"
    if h: "allow_multiple_votes (the_poll w)
            \<or> (\<forall>j<length ?xs. j \<noteq> i \<longrightarrow> voter \<notin> votes (?xs ! j))"
  proof (cases "allow_multiple_votes (the_poll w)")
    case True
    then show ?thesis using assms by (simp add: the_poll_add_vote Let_def p1 undo)
  next
    case False
    with h have sib: "\<forall>j<length ?xs. j \<noteq> i \<longrightarrow> voter \<notin> votes (?xs ! j)" by simp
    have "\<forall>opt \<in> set ?xs1. voter \<notin> votes opt"
    proof (rule no_vote_anywhere [where i = i])
      show "i < length ?xs1" using assms by simp
      show "voter \<notin> votes (?xs1 ! i)" using assms by (simp add: discard_voter_def)
      show "\<forall>j<length ?xs1. j \<noteq> i \<longrightarrow> voter \<notin> votes (?xs1 ! j)" using sib by simp
    qed
    then have "map (discard_voter voter) ?xs1 = ?xs1" by (rule map_discard_voter_id)
    then show ?thesis using False assms by (simp add: the_poll_add_vote Let_def p1 undo)
  qed
  show ?thesis using own whole by (simp add: t1 t2)
next
  case unvoted: False
  let ?xs = "options (the_poll w)"
  let ?w1 = "add_vote i voter w"
  let ?ys = "if allow_multiple_votes (the_poll w) then ?xs else map (discard_voter voter) ?xs"
  have t1: "toggle_vote i voter w = ?w1" using unvoted by (simp add: toggle_vote_def)
  have p1: "the_poll ?w1 = (the_poll w)\<lparr>options := ?ys[i := add_voter voter (?ys ! i)]\<rparr>"
    by (simp add: the_poll_add_vote Let_def)
  have "voter \<in> votes (options (the_poll ?w1) ! i)"
    using assms by (simp add: p1 add_voter_def)
  then have t2: "toggle_vote i voter ?w1 = remove_vote i voter ?w1" by (simp add: toggle_vote_def)
  have own: "votes (options (the_poll (remove_vote i voter ?w1)) ! i) = votes (?xs ! i)"
    using assms unvoted
    by (auto simp add: remove_vote_options p1 discard_voter_def add_voter_def)
  have undo: "discard_voter voter (add_voter voter (?xs ! i)) = ?xs ! i"
    using unvoted by (simp add: discard_voter_def add_voter_def)
  have whole: "the_poll (remove_vote i voter ?w1) = the_poll w"
    if h: "allow_multiple_votes (the_poll w)
            \<or> (\<forall>j<length ?xs. j \<noteq> i \<longrightarrow> voter \<notin> votes (?xs ! j))"
  proof -
    have ys: "?ys = ?xs"
    proof (cases "allow_multiple_votes (the_poll w)")
      case True
      then show ?thesis by simp
    next
      case False
      with h have "\<forall>j<length ?xs. j \<noteq> i \<longrightarrow> voter \<notin> votes (?xs ! j)" by simp
      with assms unvoted have "\<forall>opt \<in> set ?xs. voter \<notin> votes opt"
        by (intro no_vote_anywhere [where i = i])
      then show ?thesis by (simp add: map_discard_voter_id)
    qed
    show ?thesis using assms by (simp add: the_poll_remove_vote p1 ys undo)
  qed
  show ?thesis using own whole by (simp add: t1 t2)
qed

theorem toggle_vote_twice_witness:
  "votes (options (the_poll (toggle_vote 1 7 (toggle_vote 1 7 demo_world))) ! 1)
     = votes (options (the_poll demo_world) ! 1)
   \<and> the_poll (toggle_vote 1 7 (toggle_vote 1 7 demo_world)) = the_poll demo_world"
proof -
  have h1: "1 < length (options (the_poll demo_world))"
    by (simp add: demo_world_def)
  have h2: "\<forall>j<length (options (the_poll demo_world)). j \<noteq> 1 \<longrightarrow>
              7 \<notin> votes (options (the_poll demo_world) ! j)"
    by (simp add: demo_world_def less_Suc_eq)
  from toggle_vote_twice [OF h1, of 7] h2 show ?thesis by blast
qed

text \<open>
  The claim C2 as stated fails: in the single-vote poll of \<open>demo_world\<close> voter 7 has
  voted for the second option; toggling the first option twice leaves the second
  option's vote set empty.
\<close>
theorem toggle_vote_twice_counterexample:
  "votes (options (the_poll demo_world) ! 1) = {7}
   \<and> votes (options (the_poll (toggle_vote 0 7 (toggle_vote 0 7 demo_world))) ! 1) = {}"
  by (simp add: demo_world_def toggle_vote_def remove_vote_options add_vote_options
        discard_voter_def add_voter_def Let_def)

section \<open>The accessors return copies\<close>

text \<open>
  Claim C10. \<open>votes\<close> returns a fresh object with the content of the internal set: its
  address differs from the internal one, the objects that existed are unchanged, and
  whatever mutation the caller applies to the returned set, the internal set and
  \<open>vote_count\<close> stay as they were. \<open>vote_count\<close> leaves the heap as it was.
\<close>
theorem votes_accessor_returns_copy:
  assumes "a < length h"
  shows "(case votes_accessor a h of (r, h') \<Rightarrow>
            r \<noteq> a \<and> h' ! r = h ! a \<and> take (length h) h' = h
          \<and> (\<forall>f. mutate r f h' ! a = h ! a
                 \<and> fst (vote_count_accessor a (mutate r f h')) = fst (vote_count_accessor a h)))
       \<and> snd (vote_count_accessor a h) = h"
  using assms
  by (simp add: votes_accessor_def vote_count_accessor_def mutate_def nth_append)

theorem votes_accessor_returns_copy_witness:
  "(case votes_accessor 0 [{7, 8}] of (r, h') \<Rightarrow>
      r = 1 \<and> h' = [{7, 8}, {7, 8}] \<and> mutate r (\<lambda>vs. {}) h' = [{7, 8}, {}])
   \<and> vote_count_accessor 0 [{7, 8}] = (2, [{7, 8}])"
proof -
  have "(0::nat) < length [{7, 8 :: int}]" by simp
  from votes_accessor_returns_copy [OF this] show ?thesis
    by (simp add: votes_accessor_def vote_count_accessor_def mutate_def)
qed

section \<open>Too many options\<close>

text \<open>
  Claim C5. When the options argument of \<open>/poll\<close> holds more than \<open>MAX_OPTIONS\<close> labels,
  \<open>parse_options\<close> raises the "Too many options" error, and the command ends with an
  error in the state it started in: the handler did not run, so no poll row and no option
  row was written.
\<close>
theorem too_many_options_rejected:
  assumes "option_labels ''|'' raw = Inr labels" and "length labels > MAX_OPTIONS"
  shows "parse_options ''|'' raw = Inl (TooManyOptions labels)
       \<and> (\<exists>e. poll_command fuel q (Some raw) ex multi rt rc author msg s = Some (Some e, s))"
proof -
  have p: "parse_options ''|'' raw = Inl (TooManyOptions labels)"
    using assms by (simp add: parse_options_def MAX_OPTIONS_def)
  show ?thesis
    by (cases "length_bound_str 254 0 q") (simp_all add: p poll_command_def)
qed

lemma many_labels_split:
  "option_labels ''|'' many_labels =
     Inr [''a'', ''b'', ''c'', ''d'', ''e'', ''f'', ''g'', ''h'', ''i'', ''j'', ''k'', ''l'',
          ''m'', ''n'', ''o'', ''p'', ''q'', ''r'', ''s'', ''t'', ''u'', ''v'', ''w'', ''x'']"
  by (simp add: option_labels_def split_def many_labels_def strip_def is_space_def)

theorem too_many_options_rejected_witness:
  "parse_options ''|'' many_labels =
     Inl (TooManyOptions [''a'', ''b'', ''c'', ''d'', ''e'', ''f'', ''g'', ''h'', ''i'', ''j'', ''k'', ''l'',
          ''m'', ''n'', ''o'', ''p'', ''q'', ''r'', ''s'', ''t'', ''u'', ''v'', ''w'', ''x''])
   \<and> (\<exists>e. poll_command 5 ''Lunch?'' (Some many_labels) None False None None 3 5 demo_system
            = Some (Some e, demo_system))"
  by (rule too_many_options_rejected [OF many_labels_split]) (simp add: MAX_OPTIONS_def)

section \<open>Adding an option\<close>

text \<open>
  Claim C6. \<open>add_poll_option\<close> on a poll that has \<open>MAX_OPTIONS\<close> options or is closed
  fails with a capacity error and leaves the state as it was; otherwise it succeeds,
  exactly one option (with the given label and author and no votes) is appended to the
  poll and exactly one row to the table of options, and no other poll and no other table
  changes.
\<close>
theorem add_poll_option_capacity:
  assumes "pi < length (polls s)"
  shows "(length (options (polls s ! pi)) = MAX_OPTIONS \<or> is_expired (polls s ! pi) (now s)
           \<longrightarrow> (\<exists>e. (e = CannotAddMoreOptions \<or> e = CapacityError)
                    \<and> add_poll_option pi lbl author m s = (Some e, s)))
       \<and> (length (options (polls s ! pi)) \<noteq> MAX_OPTIONS \<and> \<not> is_expired (polls s ! pi) (now s)
           \<longrightarrow> (case add_poll_option pi lbl author m s of (e, s') \<Rightarrow>
                  e = None
                \<and> options (polls s' ! pi) = options (polls s ! pi) @
                     [\<lparr>option_id = int (length (option_table s)) + 1, label = lbl, votes = {},
                       author_id = Some author\<rparr>]
                \<and> option_table s' = option_table s @
                     [(int (length (option_table s)) + 1, lbl, poll_id (polls s ! pi), Some author)]
                \<and> length (polls s') = length (polls s)
                \<and> (\<forall>j. j \<noteq> pi \<longrightarrow> polls s' ! j = polls s ! j)
                \<and> poll_table s' = poll_table s \<and> vote_table s' = vote_table s))"
proof (intro conjI impI)
  assume full: "length (options (polls s ! pi)) = MAX_OPTIONS \<or> is_expired (polls s ! pi) (now s)"
  show "\<exists>e. (e = CannotAddMoreOptions \<or> e = CapacityError)
            \<and> add_poll_option pi lbl author m s = (Some e, s)"
  proof (cases "length (options (polls s ! pi)) = MAX_OPTIONS")
    case True
    then show ?thesis by (simp add: add_poll_option_def)
  next
    case False
    with full have "is_expired (polls s ! pi) (now s)" by simp
    then have "add_poll_option pi lbl author m s = (Some CapacityError, s)"
      using False by (simp add: add_poll_option_def new_option_def Let_def)
    then show ?thesis by simp
  qed
next
  assume room: "length (options (polls s ! pi)) \<noteq> MAX_OPTIONS \<and> \<not> is_expired (polls s ! pi) (now s)"
  then show "case add_poll_option pi lbl author m s of (e, s') \<Rightarrow>
                  e = None
                \<and> options (polls s' ! pi) = options (polls s ! pi) @
                     [\<lparr>option_id = int (length (option_table s)) + 1, label = lbl, votes = {},
                       author_id = Some author\<rparr>]
                \<and> option_table s' = option_table s @
                     [(int (length (option_table s)) + 1, lbl, poll_id (polls s ! pi), Some author)]
                \<and> length (polls s') = length (polls s)
                \<and> (\<forall>j. j \<noteq> pi \<longrightarrow> polls s' ! j = polls s ! j)
                \<and> poll_table s' = poll_table s \<and> vote_table s' = vote_table s"
    using assms
    by (simp add: add_poll_option_def new_option_def update_poll_message_def Let_def)
qed

theorem add_poll_option_capacity_witness:
  "add_poll_option 0 ''Maybe'' 9 5 (poll_close 0 demo_system) = (Some CapacityError, poll_close 0 demo_system)
   \<and> (case add_poll_option 0 ''Maybe'' 9 5 demo_system of (e, s') \<Rightarrow>
         e = None \<and> map label (options (polls s' ! 0)) = [''Yes'', ''No'', ''Maybe'']
         \<and> option_table s' = [(1, ''Yes'', 1, None), (2, ''No'', 1, None), (3, ''Maybe'', 1, Some 9)])"
proof -
  have c: "0 < length (polls (poll_close 0 demo_system))"
    and x: "is_expired (polls (poll_close 0 demo_system) ! 0) (now (poll_close 0 demo_system))"
    and n: "length (options (polls (poll_close 0 demo_system) ! 0)) \<noteq> MAX_OPTIONS"
    by (simp_all add: demo_system_def demo_world_def poll_close_def is_expired_def Let_def MAX_OPTIONS_def)
  have o: "0 < length (polls demo_system)"
    and r: "length (options (polls demo_system ! 0)) \<noteq> MAX_OPTIONS
            \<and> \<not> is_expired (polls demo_system ! 0) (now demo_system)"
    by (simp_all add: demo_system_def demo_world_def is_expired_def MAX_OPTIONS_def)
  have "\<exists>e. (e = CannotAddMoreOptions \<or> e = CapacityError)
          \<and> add_poll_option 0 ''Maybe'' 9 5 (poll_close 0 demo_system) = (Some e, poll_close 0 demo_system)"
    using add_poll_option_capacity [OF c, of "''Maybe''" 9 5] x by blast
  moreover have "add_poll_option 0 ''Maybe'' 9 5 (poll_close 0 demo_system) \<noteq> (Some CannotAddMoreOptions, poll_close 0 demo_system)"
    using n by (simp add: add_poll_option_def new_option_def Let_def x)
  ultimately have first: "add_poll_option 0 ''Maybe'' 9 5 (poll_close 0 demo_system) = (Some CapacityError, poll_close 0 demo_system)"
    by auto
  have second: "case add_poll_option 0 ''Maybe'' 9 5 demo_system of (e, s') \<Rightarrow>
         e = None \<and> map label (options (polls s' ! 0)) = [''Yes'', ''No'', ''Maybe'']
         \<and> option_table s' = [(1, ''Yes'', 1, None), (2, ''No'', 1, None), (3, ''Maybe'', 1, Some 9)]"
    using add_poll_option_capacity [OF o, of "''Maybe''" 9 5] r
    by (auto simp add: demo_system_def demo_world_def split: prod.splits)
  show ?thesis using first second by simp
qed

section \<open>A repeat count without a repeat time\<close>

text \<open>
  Claim C7. With a repeat count and no repeat time, \<open>repeat_poll\<close> edits the requester's
  message to show the configuration error and returns, whatever the fuel: no poll object
  and no row is created, the poll counter is unchanged and no close task is started. (The
  only exception that can leave the method is the transport's \<open>Forbidden\<close>.)
\<close>
theorem repeat_count_without_time:
  assumes "repeat_time ps = None" and "repeat_count ps = Some n"
  shows "\<exists>e s'. repeat_poll fuel ps author msg s = Some (e, ps, s')
       \<and> edit_calls s' = edit_calls s @
           [(msg, PollEmbedBase
               ''You need to define a repeat time if you have defined a repeat count.'' None)]
       \<and> (e = None \<or> e = Some Forbidden)
       \<and> polls s' = polls s \<and> poll_table s' = poll_table s \<and> option_table s' = option_table s
       \<and> total_poll_count s' = total_poll_count s \<and> close_tasks s' = close_tasks s"
  using assms by (simp add: repeat_poll_def Let_def)

theorem repeat_count_without_time_witness:
  "\<exists>e s'. repeat_poll 0 (demo_params (Some 50) None (Some 3)) 3 5 demo_system
             = Some (e, demo_params (Some 50) None (Some 3), s')
       \<and> edit_calls s' = edit_calls demo_system @
           [(5, PollEmbedBase
               ''You need to define a repeat time if you have defined a repeat count.'' None)]
       \<and> (e = None \<or> e = Some Forbidden)
       \<and> polls s' = polls demo_system \<and> poll_table s' = poll_table demo_system
       \<and> option_table s' = option_table demo_system
       \<and> total_poll_count s' = total_poll_count demo_system
       \<and> close_tasks s' = close_tasks demo_system"
proof -
  have "repeat_time (demo_params (Some 50) None (Some 3)) = None"
    and "repeat_count (demo_params (Some 50) None (Some 3)) = Some 3"
    by (simp_all add: demo_params_def)
  from repeat_count_without_time [OF this] show ?thesis .
qed

section \<open>A repeating poll without an expiry\<close>

text \<open>
  Claim C8 at a failing input: a repeat time of one tick, a repeat count of three and no
  expiry (the default of \<open>/poll\<close>). The loop creates one poll and then raises \<open>TypeError\<close>
  at \<open>params.expires += params.repeat_time\<close>; the second and third poll are never
  created.
\<close>
theorem repeat_poll_without_expiry:
  "(\<exists>s'. repeat_poll 10 (demo_params None (Some 1) (Some 3)) 3 5 demo_system
           = Some (Some TypeError, demo_params None (Some 1) (Some 3), s')
       \<and> length (polls s') = length (polls demo_system) + 1
       \<and> length (poll_table s') = length (poll_table demo_system) + 1
       \<and> total_poll_count s' = total_poll_count demo_system + 1)
   \<and> (\<exists>s'. poll_command 10 ''Lunch?'' None None False (Some 1) (Some 3) 3 5 demo_system
           = Some (Some TypeError, s')
       \<and> length (polls s') = length (polls demo_system) + 1)"
  by (simp add: poll_command_def length_bound_str_def repeat_poll_def demo_params_def numeral_nat
        new_poll_def create_poll_def MAX_OPTIONS_def Let_def update_poll_message_def
        set_presence_def demo_system_def)

section \<open>A repeating poll with an expiry\<close>

text \<open>
  With an expiry, a repeat time, a repeat count \<open>n\<close> and at most \<open>MAX_OPTIONS\<close> options,
  the loop ends once the fuel exceeds \<open>n\<close>; it has then created exactly \<open>n\<close> polls, the
  expiry of each later than the one before by the repeat time.
\<close>

lemma new_poll_creates:
  assumes "length (param_options ps) \<le> MAX_OPTIONS"
  shows "\<exists>s1. new_poll ps author msg s = (None, s1)
       \<and> map expires (polls s1) = map expires (polls s) @ [param_expires ps]
       \<and> total_poll_count s1 = total_poll_count s + 1"
  using assms
  by (simp add: new_poll_def create_poll_def Let_def update_poll_message_def set_presence_def)

lemma upt_shift:
  "map f [0..<Suc m] = f 0 # map (\<lambda>j. f (Suc j)) [0..<m]"
  by (simp only: upt_conv_Cons [of 0 "Suc m"] map_Suc_upt [symmetric] list.map map_map comp_def
        zero_less_Suc if_True)

lemma repeat_loop_creates_polls:
  assumes "repeat_time ps = Some t" and "repeat_count ps = Some n"
    and "param_expires ps = Some e" and "length (param_options ps) \<le> MAX_OPTIONS"
    and "k \<le> n" and "nat (n - k) < fuel"
  shows "\<exists>s'. repeat_loop fuel ps k author msg s
              = Some (None, ps\<lparr>param_expires := Some (e + (n - k) * t)\<rparr>, s')
       \<and> map expires (polls s') = map expires (polls s) @
            map (\<lambda>j. Some (e + int j * t)) [0..<nat (n - k)]
       \<and> total_poll_count s' = total_poll_count s + (n - k)"
  using assms
proof (induction fuel arbitrary: ps k s e)
  case 0
  then show ?case by simp
next
  case (Suc fuel)
  show ?case
  proof (cases "k < n")
    case False
    with Suc.prems have "k = n" by simp
    then show ?thesis using Suc.prems by simp
  next
    case True
    obtain s1 where np: "new_poll ps author msg s = (None, s1)"
      and e1: "map expires (polls s1) = map expires (polls s) @ [Some e]"
      and c1: "total_poll_count s1 = total_poll_count s + 1"
      using new_poll_creates [OF Suc.prems(4), of author msg s] Suc.prems(3) by auto
    let ?ps = "ps\<lparr>param_expires := Some (e + t)\<rparr>"
    let ?s = "s1\<lparr>now := now s1 + max 0 t\<rparr>"
    have step: "repeat_loop (Suc fuel) ps k author msg s = repeat_loop fuel ?ps (k + 1) author msg ?s"
      using True Suc.prems(1,2,3) by (simp add: np)
    have "\<exists>s'. repeat_loop fuel ?ps (k + 1) author msg ?s
              = Some (None, ?ps\<lparr>param_expires := Some (e + t + (n - (k + 1)) * t)\<rparr>, s')
       \<and> map expires (polls s') = map expires (polls ?s) @
            map (\<lambda>j. Some (e + t + int j * t)) [0..<nat (n - (k + 1))]
       \<and> total_poll_count s' = total_poll_count ?s + (n - (k + 1))"
      using Suc.prems True by (intro Suc.IH) simp_all
    then obtain s' where r: "repeat_loop fuel ?ps (k + 1) author msg ?s
              = Some (None, ?ps\<lparr>param_expires := Some (e + t + (n - (k + 1)) * t)\<rparr>, s')"
      and e': "map expires (polls s') = map expires (polls ?s) @
            map (\<lambda>j. Some (e + t + int j * t)) [0..<nat (n - (k + 1))]"
      and c': "total_poll_count s' = total_poll_count ?s + (n - (k + 1))"
      by blast
    have arith: "e + t + (n - (k + 1)) * t = e + (n - k) * t" by (simp add: algebra_simps)
    have m: "nat (n - k) = Suc (nat (n - (k + 1)))" using True by simp
    have "map (\<lambda>j. Some (e + int j * t)) [0..<nat (n - k)]
            = Some e # map (\<lambda>j. Some (e + t + int j * t)) [0..<nat (n - (k + 1))]"
      by (simp only: m upt_shift) (simp add: algebra_simps)
    then have es: "map expires (polls s') = map expires (polls s) @
            map (\<lambda>j. Some (e + int j * t)) [0..<nat (n - k)]"
      by (simp add: e' e1)
    have cs: "total_poll_count s' = total_poll_count s + (n - k)"
      by (simp add: c' c1)
    have "repeat_loop (Suc fuel) ps k author msg s
              = Some (None, ps\<lparr>param_expires := Some (e + (n - k) * t)\<rparr>, s')"
      by (simp only: step r) (simp add: arith)
    then show ?thesis using es cs by blast
  qed
qed

lemma repeat_poll_creates_polls:
  assumes "repeat_time ps = Some t" and "repeat_count ps = Some n"
    and "param_expires ps = Some e" and "length (param_options ps) \<le> MAX_OPTIONS"
    and "0 \<le> n" and "nat n < fuel"
  shows "\<exists>s'. repeat_poll fuel ps author msg s
              = Some (None, ps\<lparr>param_expires := Some (e + n * t)\<rparr>, s')
       \<and> map expires (polls s') = map expires (polls s) @
            map (\<lambda>j. Some (e + int j * t)) [0..<nat n]
       \<and> total_poll_count s' = total_poll_count s + n"
  using repeat_loop_creates_polls [OF assms(1-4), of 0 fuel author msg s] assms
  by (simp add: repeat_poll_def)

section \<open>The close task and a poll that is closed already\<close>

lemma poll_close_frame:
  "now (poll_close pi s) = now s"
  "edit_calls (poll_close pi s) = edit_calls s"
  "closed_poll_count (poll_close pi s) = closed_poll_count s"
  by (simp_all add: poll_close_def Let_def)

lemma close_poll_now_polls:
  "polls (close_poll_now pi m s) = polls (poll_close pi s)"
  and close_poll_now_poll_table:
  "poll_table (close_poll_now pi m s) = poll_table (poll_close pi s)"
  and close_poll_now_count:
  "closed_poll_count (close_poll_now pi m s) = closed_poll_count s + 1"
  by (simp_all add: close_poll_now_def set_presence_def update_poll_message_def Let_def
        poll_close_frame)

lemma close_poll_now_edit_calls:
  "edit_calls (close_poll_now pi m s) = edit_calls s @
     [(case m of Some x \<Rightarrow> x | None \<Rightarrow> message_id (polls (poll_close pi s) ! pi),
       if is_expired (polls (poll_close pi s) ! pi) (now s)
       then PollClosedEmbed (polls (poll_close pi s) ! pi)
       else PollEmbed (polls (poll_close pi s) ! pi))]"
  by (simp add: close_poll_now_def set_presence_def update_poll_message_def Let_def
        poll_close_frame)

lemma poll_close_closed:
  "pi < length (polls s) \<Longrightarrow> closed (polls (poll_close pi s) ! pi)"
  by (simp add: poll_close_def Let_def)

lemma poll_close_twice:
  "pi < length (polls s) \<Longrightarrow> poll_close pi (poll_close pi s) = poll_close pi s"
  by (simp add: poll_close_def Let_def comp_def)

lemma poll_close_cong:
  assumes "polls s = polls s'" and "poll_table s = poll_table s'"
  shows "polls (poll_close pi s) = polls (poll_close pi s')"
    and "poll_table (poll_close pi s) = poll_table (poll_close pi s')"
  using assms by (simp_all add: poll_close_def Let_def)

text \<open>
  Claim C3, as amended. A close task that wakes up after its poll was closed by another
  path (here \<open>close_poll_now\<close> during the task's sleep) does not look at the closed state:
  it calls \<open>close_poll_now\<close> again. The poll stays closed, the poll objects and the poll
  rows are as the first closing left them, and the poll's message is edited once more,
  with the embed of the closed poll.
\<close>
theorem stale_close_task_closes_again:
  assumes "pi < length (polls s)" and "expires (polls s ! pi) = Some e"
  shows "closed (polls (close_poll_now pi m s) ! pi)
       \<and> polls (poll_close_task pi None (close_poll_now pi m) s) = polls (close_poll_now pi m s)
       \<and> poll_table (poll_close_task pi None (close_poll_now pi m) s)
           = poll_table (close_poll_now pi m s)
       \<and> edit_calls (poll_close_task pi None (close_poll_now pi m) s)
           = edit_calls (close_poll_now pi m s) @
               [(message_id (polls s ! pi), PollClosedEmbed (polls (close_poll_now pi m s) ! pi))]"
proof -
  let ?s1 = "close_poll_now pi m s"
  let ?s2 = "?s1\<lparr>now := max (now ?s1) e\<rparr>"
  have task: "poll_close_task pi None (close_poll_now pi m) s = close_poll_now pi None ?s2"
    using assms(2) by (simp add: poll_close_task_def Let_def)
  have p1: "polls ?s1 = polls (poll_close pi s)" by (rule close_poll_now_polls)
  have t1: "poll_table ?s1 = poll_table (poll_close pi s)" by (rule close_poll_now_poll_table)
  have c1: "closed (polls ?s1 ! pi)" using assms(1) by (simp add: p1 poll_close_closed)
  have same: "polls ?s2 = polls (poll_close pi s)" "poll_table ?s2 = poll_table (poll_close pi s)"
    by (simp_all add: p1 t1)
  have again: "polls (poll_close pi ?s2) = polls ?s1" "poll_table (poll_close pi ?s2) = poll_table ?s1"
    using poll_close_cong [OF same, of pi] poll_close_twice [OF assms(1)] by (simp_all add: p1 t1)
  have polls2: "polls (close_poll_now pi None ?s2) = polls ?s1"
    by (simp only: close_poll_now_polls again)
  have table2: "poll_table (close_poll_now pi None ?s2) = poll_table ?s1"
    by (simp only: close_poll_now_poll_table again)
  have msg: "message_id (polls ?s1 ! pi) = message_id (polls s ! pi)"
    using assms(1) by (simp add: p1 poll_close_def Let_def)
  have "edit_calls (close_poll_now pi None ?s2) = edit_calls ?s2 @
      [(message_id (polls ?s1 ! pi),
        if is_expired (polls ?s1 ! pi) (now ?s2) then PollClosedEmbed (polls ?s1 ! pi)
        else PollEmbed (polls ?s1 ! pi))]"
    by (simp only: close_poll_now_edit_calls again option.case)
  moreover have "is_expired (polls ?s1 ! pi) (now ?s2)" using c1 by (simp add: is_expired_def)
  moreover have "edit_calls ?s2 = edit_calls ?s1" by simp
  ultimately have edits2: "edit_calls (close_poll_now pi None ?s2) = edit_calls ?s1 @
      [(message_id (polls s ! pi), PollClosedEmbed (polls ?s1 ! pi))]"
    by (simp only: msg if_True)
  show ?thesis using c1 polls2 table2 edits2 by (simp only: task simp_thms)
qed

theorem stale_close_task_closes_again_witness:
  "closed (polls (close_poll_now 0 (Some 5) demo_system) ! 0)
   \<and> polls (poll_close_task 0 None (close_poll_now 0 (Some 5)) demo_system)
       = polls (close_poll_now 0 (Some 5) demo_system)
   \<and> length (edit_calls (poll_close_task 0 None (close_poll_now 0 (Some 5)) demo_system)) = 2"
proof -
  have "0 < length (polls demo_system)" and "expires (polls demo_system ! 0) = Some 100"
    by (simp_all add: demo_system_def)
  moreover have "edit_calls demo_system = []" by (simp add: demo_system_def)
  ultimately show ?thesis
    using stale_close_task_closes_again [of 0 demo_system 100 "Some 5"]
    by (simp add: close_poll_now_edit_calls)
qed

text \<open>
  The claim C3 as stated fails: after a manual closing of the poll of \<open>demo_system\<close> the
  close task, once awake, sends a second notification and counts the poll as closed a
  second time.
\<close>
theorem stale_close_task_counterexample:
  "closed_poll_count (close_poll_now 0 (Some 5) demo_system) = 1
   \<and> closed_poll_count (poll_close_task 0 None (close_poll_now 0 (Some 5)) demo_system) = 2
   \<and> length (edit_calls (close_poll_now 0 (Some 5) demo_system)) = 1
   \<and> length (edit_calls (poll_close_task 0 None (close_poll_now 0 (Some 5)) demo_system)) = 2"
  by (simp add: poll_close_task_def close_poll_now_count close_poll_now_edit_calls Let_def
        demo_system_def)

section \<open>Toggling a vote through the bot\<close>

lemma toggle_vote_flips:
  assumes "i < length (options (the_poll w))"
  shows "(voter \<in> votes (options (the_poll (toggle_vote i voter w)) ! i))
           = (voter \<notin> votes (options (the_poll w) ! i))"
  using assms
  by (simp add: toggle_vote_def remove_vote_options add_vote_options Let_def
        discard_voter_def add_voter_def)

lemma toggle_vote_message_id:
  "message_id (the_poll (toggle_vote i voter w)) = message_id (the_poll w)"
  by (simp add: toggle_vote_def the_poll_remove_vote the_poll_add_vote Let_def)

text \<open>
  Claim C4. \<open>Paul.toggle_vote\<close> flips the voter's membership in the vote set of the
  option, and then edits the poll's message with an embed built from the poll as it is
  after the change.
\<close>
theorem paul_toggle_vote_flips_and_notifies:
  assumes "pi < length (polls s)" and "oi < length (options (polls s ! pi))"
  shows "(voter \<in> votes (options (polls (paul_toggle_vote pi oi voter s) ! pi) ! oi))
           = (voter \<notin> votes (options (polls s ! pi) ! oi))
       \<and> edit_calls (paul_toggle_vote pi oi voter s) = edit_calls s @
           [(message_id (polls s ! pi),
             if is_expired (polls (paul_toggle_vote pi oi voter s) ! pi) (now s)
             then PollClosedEmbed (polls (paul_toggle_vote pi oi voter s) ! pi)
             else PollEmbed (polls (paul_toggle_vote pi oi voter s) ! pi))]"
proof -
  let ?w = "\<lparr>the_poll = polls s ! pi, vote_rows = vote_table s\<rparr>"
  have flip: "(voter \<in> votes (options (the_poll (toggle_vote oi voter ?w)) ! oi))
           = (voter \<notin> votes (options (polls s ! pi) ! oi))"
    using toggle_vote_flips [of oi ?w voter] assms(2) by simp
  have mid: "message_id (the_poll (toggle_vote oi voter ?w)) = message_id (polls s ! pi)"
    using toggle_vote_message_id [of oi voter ?w] by simp
  have polls': "polls (paul_toggle_vote pi oi voter s) ! pi = the_poll (toggle_vote oi voter ?w)"
    using assms(1)
    by (simp add: paul_toggle_vote_def option_toggle_vote_def update_poll_message_def Let_def)
  have edits: "edit_calls (paul_toggle_vote pi oi voter s) = edit_calls s @
           [(message_id (the_poll (toggle_vote oi voter ?w)),
             if is_expired (the_poll (toggle_vote oi voter ?w)) (now s)
             then PollClosedEmbed (the_poll (toggle_vote oi voter ?w))
             else PollEmbed (the_poll (toggle_vote oi voter ?w)))]"
    using assms(1)
    by (simp add: paul_toggle_vote_def option_toggle_vote_def update_poll_message_def Let_def)
  show ?thesis using flip by (simp add: polls' edits mid)
qed

theorem paul_toggle_vote_flips_and_notifies_witness:
  "7 \<in> votes (options (polls (paul_toggle_vote 0 0 7 demo_system) ! 0) ! 0)
   \<and> edit_calls (paul_toggle_vote 0 0 7 demo_system) =
       [(5, PollEmbed (polls (paul_toggle_vote 0 0 7 demo_system) ! 0))]"
proof -
  have "0 < length (polls demo_system)" and "0 < length (options (polls demo_system ! 0))"
    by (simp_all add: demo_system_def demo_world_def)
  from paul_toggle_vote_flips_and_notifies [OF this, of 7] show ?thesis
    by (simp add: demo_system_def demo_world_def is_expired_def paul_toggle_vote_def
          option_toggle_vote_def update_poll_message_def Let_def toggle_vote_def
          the_poll_add_vote)
qed

end
